theory Spec2Isabelle
  imports Main "HOL-Library.Sublist"
begin

section \<open>The Google Pay button component of \<open>fast-checkout.vue\<close>\<close>

text \<open>
  The component is an event-driven program: a mounted hook, a click handler, an unmount
  hook, and the continuations of four kinds of promise (script load, readiness check,
  payment sheet, backend relay). Each handler and each continuation is a function on the
  component's state; a promise that has been issued and has not settled is an entry of
  \<open>pending\<close>; what the component does to the outside (events emitted to the host page,
  vendor calls, the relay request, the injected script) is appended to \<open>effects\<close>.
  Console output is not part of the model.
\<close>

subsection \<open>Props and the payment-data request\<close>

record props =
  amount :: string
  currency :: string
  merchantName :: string
  environment :: string
  gateway :: string
  gatewayMerchantId :: string
  processEndpoint :: string
  autoSendToServer :: bool

definition default_props :: props where
  "default_props =
     \<lparr>amount = ''1.00'', currency = ''USD'', merchantName = ''Example Merchant'',
      environment = ''TEST'', gateway = ''example'',
      gatewayMerchantId = ''BCR2DN5T5CC5PV3C'', processEndpoint = ''/process-payment'',
      autoSendToServer = True\<rparr>"

record tokenization_parameters =
  tp_gateway :: string
  tp_gatewayMerchantId :: string

record tokenization_specification =
  ts_type :: string
  ts_parameters :: tokenization_parameters

record card_parameters =
  allowedAuthMethods :: "string list"
  allowedCardNetworks :: "string list"
  billingAddressRequired :: bool
  billingAddressFormat :: string

record card_payment_method =
  cpm_type :: string
  cpm_parameters :: card_parameters
  cpm_tokenizationSpecification :: tokenization_specification

record transaction_info =
  totalPriceStatus :: string
  totalPrice :: string
  currencyCode :: string

record merchant_info =
  mi_merchantName :: string

record payment_data_request =
  apiVersion :: nat
  apiVersionMinor :: nat
  allowedPaymentMethods :: "card_payment_method list"
  transactionInfo :: transaction_info
  merchantInfo :: merchant_info

definition allowedCardNetworks_const :: "string list" where
  "allowedCardNetworks_const = [''AMEX'', ''DISCOVER'', ''MASTERCARD'', ''VISA'']"

definition allowedCardAuthMethods :: "string list" where
  "allowedCardAuthMethods = [''PAN_ONLY'', ''CRYPTOGRAM_3DS'']"

definition tokenizationSpecification :: "props \<Rightarrow> tokenization_specification" where
  "tokenizationSpecification p =
     \<lparr>ts_type = ''PAYMENT_GATEWAY'',
      ts_parameters = \<lparr>tp_gateway = gateway p, tp_gatewayMerchantId = gatewayMerchantId p\<rparr>\<rparr>"

definition cardPaymentMethod :: "props \<Rightarrow> card_payment_method" where
  "cardPaymentMethod p =
     \<lparr>cpm_type = ''CARD'',
      cpm_parameters =
        \<lparr>allowedAuthMethods = allowedCardAuthMethods,
         allowedCardNetworks = allowedCardNetworks_const,
         billingAddressRequired = True,
         billingAddressFormat = ''FULL''\<rparr>,
      cpm_tokenizationSpecification = tokenizationSpecification p\<rparr>"

text \<open>
  \<open>getPaymentDataRequest(totalPrice = props.amount, currencyCode = props.currency)\<close>: the
  two parameters are explicit here; the click handler passes the defaults.
\<close>

definition getPaymentDataRequest :: "props \<Rightarrow> string \<Rightarrow> string \<Rightarrow> payment_data_request" where
  "getPaymentDataRequest p price code =
     \<lparr>apiVersion = 2, apiVersionMinor = 0,
      allowedPaymentMethods = [cardPaymentMethod p],
      transactionInfo =
        \<lparr>totalPriceStatus = ''FINAL'', totalPrice = price, currencyCode = code\<rparr>,
      merchantInfo = \<lparr>mi_merchantName = merchantName p\<rparr>\<rparr>"

subsection \<open>State, promises and effects\<close>

type_synonym elem = nat

datatype client = PaymentsClient string

datatype emitted = Success string | Error string | Ready bool

datatype effect =
    Emit emitted
  | AppendScript elem
  | IsReadyToPay
  | CreateButton
  | LoadPaymentData payment_data_request
  | Fetch string string

datatype pending_op = PMicrotask | PScript | PReady | PPayment | PFetch | PJson

record response =
  http_status :: nat

text \<open>
  \<open>buttonContainer\<close> is the template ref: \<open>None\<close> while the ref is null, otherwise the
  children of the container element. \<open>googleApi\<close> says whether
  \<open>window.google.payments.api\<close> is defined, \<open>doc_head\<close> lists the script elements this
  component appended to \<open>document.head\<close>, and \<open>fresh\<close> names the next element that
  \<open>document.createElement\<close> returns.
\<close>

record adapter =
  status :: string
  loading :: bool
  paymentsClient :: "client option"
  buttonElement :: "elem option"
  scriptEl :: "elem option"
  buttonContainer :: "elem list option"
  googleApi :: bool
  doc_head :: "elem list"
  fresh :: nat
  pending :: "pending_op list"
  effects :: "effect list"

definition init_state :: adapter where
  "init_state =
     \<lparr>status = '''', loading = True, paymentsClient = None, buttonElement = None,
      scriptEl = None, buttonContainer = Some [], googleApi = False, doc_head = [],
      fresh = 0, pending = [], effects = []\<rparr>"

definition updateStatus :: "string \<Rightarrow> adapter \<Rightarrow> adapter" where
  "updateStatus msg s = s\<lparr>status := msg\<rparr>"

text \<open>
  \<open>emit\<close> records that the component's code calls \<open>emit(...)\<close>. Whether the host page
  receives the event is up to Vue, which drops the events of an unmounted instance: see
  \<open>vue_step\<close> below.
\<close>

definition emit :: "emitted \<Rightarrow> adapter \<Rightarrow> adapter" where
  "emit e s = s\<lparr>effects := effects s @ [Emit e]\<rparr>"

definition perform :: "effect \<Rightarrow> adapter \<Rightarrow> adapter" where
  "perform e s = s\<lparr>effects := effects s @ [e]\<rparr>"

definition await :: "pending_op \<Rightarrow> adapter \<Rightarrow> adapter" where
  "await k s = s\<lparr>pending := pending s @ [k]\<rparr>"

text \<open>A promise settles only if it was issued: the continuation runs on one pending entry.\<close>

definition settle :: "pending_op \<Rightarrow> (adapter \<Rightarrow> adapter) \<Rightarrow> adapter \<Rightarrow> adapter" where
  "settle k cont s =
     (if k \<in> set (pending s) then cont (s\<lparr>pending := remove1 k (pending s)\<rparr>) else s)"

text \<open>DOM: \<open>appendChild\<close> moves a node that is already a child to the end.\<close>

definition removeChild :: "elem \<Rightarrow> elem list \<Rightarrow> elem list" where
  "removeChild e cs = remove1 e cs"

definition appendChild :: "elem \<Rightarrow> elem list \<Rightarrow> elem list" where
  "appendChild e cs = remove1 e cs @ [e]"

subsection \<open>Initialisation\<close>

text \<open>
  \<open>loadGooglePayScript\<close> returns \<open>True\<close> with the state unchanged when the API object is
  there (\<open>Promise.resolve()\<close>), and otherwise appends a new script element to the head and
  returns \<open>False\<close>: the promise then waits for \<open>onload\<close> or \<open>onerror\<close>.
\<close>

definition loadGooglePayScript :: "adapter \<Rightarrow> bool \<times> adapter" where
  "loadGooglePayScript s =
     (if googleApi s then (True, s)
      else (False,
            perform (AppendScript (fresh s))
              (s\<lparr>scriptEl := Some (fresh s), doc_head := doc_head s @ [fresh s],
                 fresh := Suc (fresh s)\<rparr>)))"

text \<open>\<open>None\<close>: \<open>window.google.payments.api\<close> is undefined and the constructor call throws.\<close>

definition initPaymentsClient :: "props \<Rightarrow> adapter \<Rightarrow> adapter option" where
  "initPaymentsClient p s =
     (if googleApi s then Some (s\<lparr>paymentsClient := Some (PaymentsClient (environment p))\<rparr>)
      else None)"

text \<open>
  \<open>createAndAddButton\<close>; \<open>created\<close> is what the vendor's \<open>createButton\<close> returns on this
  call (\<open>None\<close> for null).
\<close>

definition detachButton :: "adapter \<Rightarrow> adapter" where
  "detachButton s =
     (case buttonElement s of
        None \<Rightarrow> s
      | Some b \<Rightarrow>
          (case buttonContainer s of
             None \<Rightarrow> s
           | Some cs \<Rightarrow>
               if b \<in> set cs
               then s\<lparr>buttonContainer := Some (removeChild b cs), buttonElement := None\<rparr>
               else s))"

definition createAndAddButton :: "elem option \<Rightarrow> adapter \<Rightarrow> adapter" where
  "createAndAddButton created s =
     (if paymentsClient s = None then s
      else
        let s1 = detachButton s;
            s2 = (perform CreateButton s1)\<lparr>buttonElement := created\<rparr>
        in (case buttonContainer s2 of
              None \<Rightarrow> s2
            | Some cs \<Rightarrow>
                (case buttonElement s2 of
                   None \<Rightarrow> s2
                 | Some b \<Rightarrow> s2\<lparr>buttonContainer := Some (appendChild b cs)\<rparr>)))"

text \<open>\<open>initGooglePay\<close> up to its first \<open>await\<close>.\<close>

definition initGooglePay :: "adapter \<Rightarrow> adapter" where
  "initGooglePay s =
     (case loadGooglePayScript s of
        (resolved, s1) \<Rightarrow> await (if resolved then PMicrotask else PScript) s1)"

text \<open>The script promise rejected: the first \<open>catch\<close>.\<close>

definition initGooglePay_scriptFailed :: "adapter \<Rightarrow> adapter" where
  "initGooglePay_scriptFailed s =
     emit (Error ''Failed to load Google Pay script'')
       ((updateStatus ''Could not load Google Pay script.'' s)\<lparr>loading := False\<rparr>)"

text \<open>The script promise resolved: the second \<open>try\<close> up to \<open>await isReadyToPay\<close>.\<close>

definition initGooglePay_scriptLoaded :: "props \<Rightarrow> adapter \<Rightarrow> adapter" where
  "initGooglePay_scriptLoaded p s =
     (case initPaymentsClient p s of
        None \<Rightarrow>
          (emit (Error ''TypeError'')
             (updateStatus ''Error checking Google Pay availability.'' s))\<lparr>loading := False\<rparr>
      | Some s1 \<Rightarrow> await PReady (perform IsReadyToPay s1))"

text \<open>\<open>isReadyToPay\<close> resolved with \<open>{ result }\<close>.\<close>

definition initGooglePay_ready :: "bool \<Rightarrow> elem option \<Rightarrow> adapter \<Rightarrow> adapter" where
  "initGooglePay_ready result created s =
     (if result
      then updateStatus ''Google Pay is available. Click the button to pay.''
             (createAndAddButton created (emit (Ready True) s))
      else updateStatus ''Google Pay is not available in this environment/profile.''
             (emit (Ready False) s))\<lparr>loading := False\<rparr>"

text \<open>\<open>isReadyToPay\<close> rejected.\<close>

definition initGooglePay_readyFailed :: "string \<Rightarrow> adapter \<Rightarrow> adapter" where
  "initGooglePay_readyFailed err s =
     (emit (Error err)
        (updateStatus ''Error checking Google Pay availability.'' s))\<lparr>loading := False\<rparr>"

subsection \<open>The payment flow\<close>

definition onGooglePayButtonClicked :: "props \<Rightarrow> adapter \<Rightarrow> adapter" where
  "onGooglePayButtonClicked p s =
     (if paymentsClient s = None then updateStatus ''Payments client not initialized.'' s
      else await PPayment
             (perform (LoadPaymentData (getPaymentDataRequest p (amount p) (currency p))) s))"

text \<open>The \<open>catch\<close> of the \<open>loadPaymentData\<close> promise.\<close>

definition loadPaymentData_failed :: "string \<Rightarrow> adapter \<Rightarrow> adapter" where
  "loadPaymentData_failed err s =
     emit (Error err) (updateStatus ''Payment cancelled or failed; check console.'' s)"

text \<open>\<open>handlePaymentSuccess\<close> up to \<open>await fetch\<close>.\<close>

definition handlePaymentSuccess :: "props \<Rightarrow> string \<Rightarrow> adapter \<Rightarrow> adapter" where
  "handlePaymentSuccess p paymentData s =
     (let s1 = emit (Success paymentData)
                 (updateStatus ''Payment authorized. Processing...'' s)
      in if autoSendToServer p
         then await PFetch (perform (Fetch (processEndpoint p) paymentData) s1)
         else s1)"

text \<open>\<open>fetch\<close> resolved (whatever the HTTP status): \<open>res.json()\<close> is awaited next.\<close>

definition handlePaymentSuccess_fetched :: "response \<Rightarrow> adapter \<Rightarrow> adapter" where
  "handlePaymentSuccess_fetched res s = await PJson s"

text \<open>\<open>fetch\<close> rejected: the \<open>catch\<close> of \<open>handlePaymentSuccess\<close>.\<close>

definition handlePaymentSuccess_fetchFailed :: "string \<Rightarrow> adapter \<Rightarrow> adapter" where
  "handlePaymentSuccess_fetchFailed err s =
     emit (Error err) (updateStatus ''Error sending token to server; see console.'' s)"

text \<open>
  \<open>res.json().catch(() => null)\<close> settled: \<open>body\<close> is the parsed body, or \<open>None\<close> when
  parsing failed and the inner \<open>catch\<close> turned the rejection into null.
\<close>

definition handlePaymentSuccess_parsed :: "string option \<Rightarrow> adapter \<Rightarrow> adapter" where
  "handlePaymentSuccess_parsed body s = updateStatus ''Server processed payment.'' s"

subsection \<open>Teardown\<close>

definition removeInjectedScript :: "adapter \<Rightarrow> adapter" where
  "removeInjectedScript s =
     (case scriptEl s of
        None \<Rightarrow> s
      | Some e \<Rightarrow>
          if e \<in> set (doc_head s)
          then s\<lparr>doc_head := removeChild e (doc_head s), scriptEl := None\<rparr>
          else s)"

definition onBeforeUnmount :: "adapter \<Rightarrow> adapter" where
  "onBeforeUnmount s = detachButton ((removeInjectedScript s)\<lparr>paymentsClient := None\<rparr>)"

subsection \<open>Events\<close>

text \<open>
  What can happen to a mounted component. \<open>ApiDefined\<close> is the vendor script defining
  \<open>window.google.payments.api\<close>; \<open>Microtask\<close> resumes \<open>initGooglePay\<close> after awaiting
  the already resolved promise. \<open>ReadyResolved r b\<close> carries the readiness result and the
  element the vendor's \<open>createButton\<close> returns if it is called.
\<close>

datatype event =
    Mounted
  | ApiDefined
  | Microtask
  | ScriptOnload
  | ScriptOnerror
  | ReadyResolved bool "elem option"
  | ReadyRejected string
  | ButtonClick
  | PaymentResolved string
  | PaymentRejected string
  | FetchResolved response
  | FetchRejected string
  | JsonSettled "string option"
  | BeforeUnmount

text \<open>
  \<open>step\<close> is the component's own code for one event; its \<open>BeforeUnmount\<close> case is the
  body of the \<open>onBeforeUnmount\<close> hook and nothing more. What Vue does around the hook is
  in \<open>vue_step\<close> below.
\<close>

fun step :: "props \<Rightarrow> event \<Rightarrow> adapter \<Rightarrow> adapter" where
  "step p Mounted s = initGooglePay s"
| "step p ApiDefined s = s\<lparr>googleApi := True\<rparr>"
| "step p Microtask s = settle PMicrotask (initGooglePay_scriptLoaded p) s"
| "step p ScriptOnload s = settle PScript (initGooglePay_scriptLoaded p) s"
| "step p ScriptOnerror s = settle PScript initGooglePay_scriptFailed s"
| "step p (ReadyResolved r b) s = settle PReady (initGooglePay_ready r b) s"
| "step p (ReadyRejected err) s = settle PReady (initGooglePay_readyFailed err) s"
| "step p ButtonClick s = onGooglePayButtonClicked p s"
| "step p (PaymentResolved pd) s = settle PPayment (handlePaymentSuccess p pd) s"
| "step p (PaymentRejected err) s = settle PPayment (loadPaymentData_failed err) s"
| "step p (FetchResolved res) s = settle PFetch (handlePaymentSuccess_fetched res) s"
| "step p (FetchRejected err) s = settle PFetch (handlePaymentSuccess_fetchFailed err) s"
| "step p (JsonSettled body) s = settle PJson (handlePaymentSuccess_parsed body) s"
| "step p BeforeUnmount s = onBeforeUnmount s"

fun run :: "props \<Rightarrow> event list \<Rightarrow> adapter \<Rightarrow> adapter" where
  "run p [] s = s"
| "run p (ev # evs) s = run p evs (step p ev s)"

text \<open>\<open>createAndAddButton\<close> called once for each answer of the vendor's \<open>createButton\<close>.\<close>

fun mountButton :: "elem option list \<Rightarrow> adapter \<Rightarrow> adapter" where
  "mountButton [] s = s"
| "mountButton (created # rest) s = mountButton rest (createAndAddButton created s)"

subsection \<open>The Vue instance around the component\<close>

text \<open>
  What the Vue runtime adds to the component's code. An instance is the component's state,
  the flag \<open>isUnmounted\<close> and the events the host page has received. Unmounting runs the
  \<open>onBeforeUnmount\<close> hook, then sets the template ref \<open>buttonContainer\<close> to null and
  marks the instance unmounted. A handler or continuation that runs on an unmounted
  instance still runs, but its \<open>emit\<close> calls do nothing (Vue 3.2.40 and later): the
  events a step emits reach the host only while the instance is mounted.
\<close>

record vue_instance =
  component :: adapter
  isUnmounted :: bool
  delivered :: "emitted list"

fun emitted_of :: "effect \<Rightarrow> emitted list" where
  "emitted_of (Emit e) = [e]"
| "emitted_of _ = []"

text \<open>The events emitted between a state and a later one.\<close>

definition new_emits :: "adapter \<Rightarrow> adapter \<Rightarrow> emitted list" where
  "new_emits s s' = concat (map emitted_of (drop (length (effects s)) (effects s')))"

fun is_unmount :: "event \<Rightarrow> bool" where
  "is_unmount BeforeUnmount = True"
| "is_unmount _ = False"

definition vue_step :: "props \<Rightarrow> event \<Rightarrow> vue_instance \<Rightarrow> vue_instance" where
  "vue_step p ev i =
     (let s' = step p ev (component i);
          d = delivered i @ (if isUnmounted i then [] else new_emits (component i) s')
      in if is_unmount ev
         then \<lparr>component = s'\<lparr>buttonContainer := None\<rparr>, isUnmounted = True, delivered = d\<rparr>
         else \<lparr>component = s', isUnmounted = isUnmounted i, delivered = d\<rparr>)"

fun vue_run :: "props \<Rightarrow> event list \<Rightarrow> vue_instance \<Rightarrow> vue_instance" where
  "vue_run p [] i = i"
| "vue_run p (ev # evs) i = vue_run p evs (vue_step p ev i)"

text \<open>A mounted instance in a given state, the host having received all it emitted.\<close>

definition mounted_instance :: "adapter \<Rightarrow> vue_instance" where
  "mounted_instance s =
     \<lparr>component = s, isUnmounted = False, delivered = concat (map emitted_of (effects s))\<rparr>"

subsection \<open>Observations on a state\<close>

text \<open>The children of the button container (none while the ref is null).\<close>

definition attached :: "adapter \<Rightarrow> elem list" where
  "attached s = (case buttonContainer s of None \<Rightarrow> [] | Some cs \<Rightarrow> cs)"

text \<open>The container holds nothing but the component's current button.\<close>

definition owns_container :: "adapter \<Rightarrow> bool" where
  "owns_container s =
     (attached s = [] \<or> (case buttonElement s of None \<Rightarrow> False | Some b \<Rightarrow> attached s = [b]))"

text \<open>Exactly one button is attached, and it is the one the component holds.\<close>

definition exactly_one :: "adapter \<Rightarrow> bool" where
  "exactly_one s =
     (case buttonElement s of None \<Rightarrow> False | Some b \<Rightarrow> buttonContainer s = Some [b])"

fun is_inject :: "effect \<Rightarrow> bool" where
  "is_inject (AppendScript e) = True"
| "is_inject _ = False"

definition injections :: "adapter \<Rightarrow> nat" where
  "injections s = length (filter is_inject (effects s))"

fun is_fetch :: "effect \<Rightarrow> bool" where
  "is_fetch (Fetch url body) = True"
| "is_fetch _ = False"

fun is_error_event :: "effect \<Rightarrow> bool" where
  "is_error_event (Emit (Error err)) = True"
| "is_error_event _ = False"

fun is_load :: "effect \<Rightarrow> bool" where
  "is_load (LoadPaymentData req) = True"
| "is_load _ = False"

fun is_ready_true :: "event \<Rightarrow> bool" where
  "is_ready_true (ReadyResolved r b) = r"
| "is_ready_true _ = False"

definition outstanding :: "adapter \<Rightarrow> nat" where
  "outstanding s = count_list (pending s) PPayment"

definition is_2xx :: "response \<Rightarrow> bool" where
  "is_2xx res = (200 \<le> http_status res \<and> http_status res < 300)"

subsection \<open>Example states\<close>

text \<open>
  A page without the vendor API on which the component is mounted, the script loads and
  the readiness check answers yes: the vendor's button 7 is mounted.
\<close>

definition ready_state :: adapter where
  "ready_state =
     run default_props [Mounted, ApiDefined, ScriptOnload, ReadyResolved True (Some 7)]
       init_state"

text \<open>The button was clicked once and the payment sheet is open.\<close>

definition paying_state :: adapter where
  "paying_state = step default_props ButtonClick ready_state"

text \<open>The payment was authorised and the relay request is in flight.\<close>

definition relaying_state :: adapter where
  "relaying_state = step default_props (PaymentResolved ''tok'') paying_state"

text \<open>The component is unmounted while the payment sheet is open.\<close>

definition torn_instance :: vue_instance where
  "torn_instance = vue_step default_props BeforeUnmount (mounted_instance paying_state)"

definition ten_usd :: props where
  "ten_usd = default_props\<lparr>amount := ''10.00'', currency := ''USD''\<rparr>"

definition no_relay :: props where
  "no_relay = default_props\<lparr>autoSendToServer := False\<rparr>"

section \<open>The payment-request widget: the cart total\<close>

text \<open>
  The second component computes the amount of its payment request from the cart in local
  storage. The cart is parsed JSON, so its values are JavaScript values of any kind, and
  the arithmetic is JavaScript's: the type \<open>'v\<close> of values and the operations on it
  (\<open>+\<close>, \<open>*\<close>, \<open>Math.round\<close>, truthiness, and the value of a numeric literal) are
  parameters of the model.
\<close>

record 'v js_ops =
  js_add :: "'v \<Rightarrow> 'v \<Rightarrow> 'v"
  js_mul :: "'v \<Rightarrow> 'v \<Rightarrow> 'v"
  js_round :: "'v \<Rightarrow> 'v"
  js_truthy :: "'v \<Rightarrow> bool"
  js_number :: "nat \<Rightarrow> 'v"

text \<open>A cart item; \<open>qty = None\<close> when the item has no \<open>qty\<close> property.\<close>

record 'v product =
  name :: string
  price :: 'v

record 'v cart_item =
  product :: "'v product"
  qty :: "'v option"

text \<open>\<open>item.qty || 1\<close>\<close>

definition qty_or_1 :: "'v js_ops \<Rightarrow> 'v cart_item \<Rightarrow> 'v" where
  "qty_or_1 ops item =
     (case qty item of
        None \<Rightarrow> js_number ops 1
      | Some q \<Rightarrow> if js_truthy ops q then q else js_number ops 1)"

text \<open>\<open>cart.value.reduce((sum, item) => sum + Math.round(item.product.price * 100) * (item.qty || 1), 0)\<close>\<close>

definition totalAmount :: "'v js_ops \<Rightarrow> 'v cart_item list \<Rightarrow> 'v" where
  "totalAmount ops cart =
     foldl (\<lambda>acc item.
              js_add ops acc
                (js_mul ops (js_round ops (js_mul ops (price (product item)) (js_number ops 100)))
                   (qty_or_1 ops item)))
       (js_number ops 0) cart"

definition totalLabel :: "'v cart_item list \<Rightarrow> string" where
  "totalLabel cart =
     (case cart of
        [] \<Rightarrow> ''Warenkorb''
      | item # rest \<Rightarrow>
          name (product item) @ (if 1 < length cart then '' + weitere'' else ''''))"

record 'v payment_total =
  pr_label :: string
  pr_amount :: 'v

record 'v payment_request_options =
  pr_country :: string
  pr_currency :: string
  pr_total :: "'v payment_total"
  requestPayerName :: bool
  requestPayerEmail :: bool

text \<open>The argument of \<open>stripe.paymentRequest\<close> in the mounted hook.\<close>

definition paymentRequestOptions :: "'v js_ops \<Rightarrow> 'v cart_item list \<Rightarrow> 'v payment_request_options" where
  "paymentRequestOptions ops cart =
     \<lparr>pr_country = ''DE'', pr_currency = ''eur'',
      pr_total = \<lparr>pr_label = totalLabel cart, pr_amount = totalAmount ops cart\<rparr>,
      requestPayerName = True, requestPayerEmail = True\<rparr>"

text \<open>
  The total as the claim words it: an item's price in cents is \<open>round(price * 100)\<close>; its
  quantity counts as 1 when it is missing or falsy; the item contributes cents times
  quantity; and the total is the sum of the contributions, starting from 0.
\<close>

definition cents :: "'v js_ops \<Rightarrow> 'v cart_item \<Rightarrow> 'v" where
  "cents ops item = js_round ops (js_mul ops (price (product item)) (js_number ops 100))"

definition missing_or_falsy :: "'v js_ops \<Rightarrow> 'v option \<Rightarrow> bool" where
  "missing_or_falsy ops q = (case q of None \<Rightarrow> True | Some v \<Rightarrow> \<not> js_truthy ops v)"

definition quantity :: "'v js_ops \<Rightarrow> 'v cart_item \<Rightarrow> 'v" where
  "quantity ops item =
     (if missing_or_falsy ops (qty item) then js_number ops 1
      else (case qty item of None \<Rightarrow> js_number ops 1 | Some v \<Rightarrow> v))"

definition line_cents :: "'v js_ops \<Rightarrow> 'v cart_item \<Rightarrow> 'v" where
  "line_cents ops item = js_mul ops (cents ops item) (quantity ops item)"

definition js_sum :: "'v js_ops \<Rightarrow> 'v list \<Rightarrow> 'v" where
  "js_sum ops xs = foldl (js_add ops) (js_number ops 0) xs"

definition spec_total :: "'v js_ops \<Rightarrow> 'v cart_item list \<Rightarrow> 'v" where
  "spec_total ops cart = js_sum ops (map (line_cents ops) cart)"

text \<open>
  An instance for evaluation: whole numbers, on which the JavaScript operations are the
  integer ones (exactly, below \<open>2^53\<close>), rounding changes nothing and 0 is the falsy
  number.
\<close>

definition int_ops :: "int js_ops" where
  "int_ops =
     \<lparr>js_add = (\<lambda>a b. a + b), js_mul = (\<lambda>a b. a * b), js_round = (\<lambda>a. a),
      js_truthy = (\<lambda>a. a \<noteq> 0), js_number = int\<rparr>"

definition tee :: "int cart_item" where
  "tee = \<lparr>product = \<lparr>name = ''Tee'', price = 3\<rparr>, qty = Some 2\<rparr>"

definition kanne :: "int cart_item" where
  "kanne = \<lparr>product = \<lparr>name = ''Kanne'', price = 5\<rparr>, qty = None\<rparr>"

definition sieb :: "int cart_item" where
  "sieb = \<lparr>product = \<lparr>name = ''Sieb'', price = 7\<rparr>, qty = Some 0\<rparr>"

section \<open>Properties\<close>

lemmas handler_defs =
  updateStatus_def emit_def perform_def await_def settle_def removeChild_def appendChild_def
  loadGooglePayScript_def initPaymentsClient_def detachButton_def createAndAddButton_def
  initGooglePay_def initGooglePay_scriptFailed_def initGooglePay_scriptLoaded_def
  initGooglePay_ready_def initGooglePay_readyFailed_def onGooglePayButtonClicked_def
  loadPaymentData_failed_def handlePaymentSuccess_def handlePaymentSuccess_fetched_def
  handlePaymentSuccess_fetchFailed_def handlePaymentSuccess_parsed_def
  removeInjectedScript_def onBeforeUnmount_def

subsection \<open>The example states, evaluated\<close>

lemma ready_state_eq:
  "ready_state =
     \<lparr>status = ''Google Pay is available. Click the button to pay.'', loading = False,
      paymentsClient = Some (PaymentsClient ''TEST''), buttonElement = Some 7,
      scriptEl = Some 0, buttonContainer = Some [7], googleApi = True, doc_head = [0],
      fresh = 1, pending = [],
      effects = [AppendScript 0, IsReadyToPay, Emit (Ready True), CreateButton]\<rparr>"
  by (simp add: ready_state_def init_state_def default_props_def handler_defs)

lemma paying_state_eq:
  "paying_state =
     ready_state\<lparr>pending := [PPayment],
       effects := effects ready_state @
         [LoadPaymentData (getPaymentDataRequest default_props ''1.00'' ''USD'')]\<rparr>"
  by (simp add: paying_state_def ready_state_eq default_props_def handler_defs)

lemma relaying_state_eq:
  "relaying_state =
     paying_state\<lparr>status := ''Payment authorized. Processing...'', pending := [PFetch],
       effects := effects paying_state @
         [Emit (Success ''tok''), Fetch ''/process-payment'' ''tok'']\<rparr>"
  by (simp add: relaying_state_def paying_state_eq ready_state_eq default_props_def handler_defs)

subsection \<open>Mounting the button\<close>

lemma createAndAddButton_owns:
  "owns_container s \<Longrightarrow> owns_container (createAndAddButton created s)"
  by (auto simp: owns_container_def attached_def handler_defs Let_def
           split: option.splits if_splits)

lemma createAndAddButton_one:
  "paymentsClient s = Some c \<Longrightarrow> buttonContainer s = Some cs \<Longrightarrow> owns_container s \<Longrightarrow>
   exactly_one (createAndAddButton (Some b) s)"
  by (auto simp: owns_container_def attached_def exactly_one_def handler_defs Let_def
           split: option.splits if_splits)

lemma createAndAddButton_client:
  "paymentsClient (createAndAddButton created s) = paymentsClient s"
  by (auto simp: handler_defs Let_def split: option.splits if_splits)

lemma createAndAddButton_container:
  "buttonContainer s = Some cs \<Longrightarrow>
   \<exists>cs'. buttonContainer (createAndAddButton created s) = Some cs'"
  by (auto simp: handler_defs Let_def split: option.splits if_splits)

lemma exactly_one_owns: "exactly_one s \<Longrightarrow> owns_container s"
  by (auto simp: exactly_one_def owns_container_def attached_def split: option.splits)

lemma exactly_one_attached: "exactly_one s \<Longrightarrow> length (attached s) = 1"
  by (auto simp: exactly_one_def attached_def split: option.splits)

lemma owns_container_length: "owns_container s \<Longrightarrow> length (attached s) \<le> 1"
  by (auto simp: owns_container_def split: option.splits)

lemma mountButton_owns: "owns_container s \<Longrightarrow> owns_container (mountButton rs s)"
  by (induction rs arbitrary: s) (simp_all add: createAndAddButton_owns)

lemma mountButton_one:
  "paymentsClient s = Some c \<Longrightarrow> buttonContainer s = Some cs \<Longrightarrow> owns_container s \<Longrightarrow>
   \<forall>r \<in> set rs. r \<noteq> None \<Longrightarrow> rs \<noteq> [] \<or> exactly_one s \<Longrightarrow>
   exactly_one (mountButton rs s)"
proof (induction rs arbitrary: s cs)
  case Nil
  then show ?case by simp
next
  case (Cons r rs)
  from Cons.prems(4) obtain b where r: "r = Some b" by auto
  let ?s1 = "createAndAddButton r s"
  have one: "exactly_one ?s1"
    unfolding r using Cons.prems(1-3) by (rule createAndAddButton_one)
  obtain cs' where cs': "buttonContainer ?s1 = Some cs'"
    using createAndAddButton_container [OF Cons.prems(2)] by blast
  have "exactly_one (mountButton rs ?s1)"
  proof (rule Cons.IH [OF _ cs'])
    show "paymentsClient ?s1 = Some c"
      using Cons.prems(1) by (simp add: createAndAddButton_client)
    show "owns_container ?s1" using one by (rule exactly_one_owns)
    show "\<forall>r \<in> set rs. r \<noteq> None" using Cons.prems(4) by simp
    show "rs \<noteq> [] \<or> exactly_one ?s1" using one by simp
  qed
  then show ?case by simp
qed

lemma owns_container_step: "owns_container s \<Longrightarrow> owns_container (step p ev s)"
  by (cases ev)
     (auto simp: owns_container_def attached_def handler_defs Let_def
           split: option.splits if_splits)

lemma owns_container_run: "owns_container s \<Longrightarrow> owns_container (run p evs s)"
  by (induction evs arbitrary: s) (simp_all add: owns_container_step)

lemma buttonContainer_step:
  "buttonContainer s \<noteq> None \<Longrightarrow> buttonContainer (step p ev s) \<noteq> None"
  by (cases ev) (auto simp: handler_defs Let_def split: option.splits if_splits)

lemma buttonContainer_run:
  "buttonContainer s \<noteq> None \<Longrightarrow> buttonContainer (run p evs s) \<noteq> None"
proof (induction evs arbitrary: s)
  case Nil
  then show ?case by simp
next
  case (Cons ev evs)
  have "buttonContainer (step p ev s) \<noteq> None"
    using Cons.prems by (rule buttonContainer_step)
  then have "buttonContainer (run p evs (step p ev s)) \<noteq> None"
    by (rule Cons.IH)
  then show ?case by simp
qed

text \<open>
  Every state that the component reaches owns its container, and until it is unmounted
  its container ref is set, so the two are no restriction on the states in which a
  mounted component calls \<open>createAndAddButton\<close>.
\<close>

lemma reachable_initialised:
  "owns_container (run p evs init_state) \<and>
   (BeforeUnmount \<notin> set evs \<longrightarrow> buttonContainer (run p evs init_state) \<noteq> None)"
proof -
  have "owns_container init_state"
    by (simp add: owns_container_def attached_def init_state_def)
  then have "owns_container (run p evs init_state)"
    by (rule owns_container_run)
  moreover have "buttonContainer init_state \<noteq> None"
    by (simp add: init_state_def)
  then have "buttonContainer (run p evs init_state) \<noteq> None"
    by (rule buttonContainer_run)
  ultimately show ?thesis by blast
qed

text \<open>
  C1. On an initialised adapter (the client exists, the container ref is set, and the
  container holds nothing but the adapter's own button), after \<open>createAndAddButton\<close> has
  been called once for each element of \<open>rs\<close>, the vendor's \<open>createButton\<close> returning an
  element each time: at most one button is attached in any case, and exactly one button
  is attached, the one the adapter holds, when there was at least one call or when a
  button was mounted to start with. Buttons never accumulate.
\<close>

theorem mountButton_exactly_one:
  assumes "paymentsClient s = Some c" and "buttonContainer s = Some cs"
    and "owns_container s" and "\<forall>r \<in> set rs. r \<noteq> None"
  shows "length (attached (mountButton rs s)) \<le> 1 \<and>
         (rs \<noteq> [] \<or> exactly_one s \<longrightarrow>
            exactly_one (mountButton rs s) \<and> length (attached (mountButton rs s)) = 1)"
proof -
  have "owns_container (mountButton rs s)"
    using assms(3) by (rule mountButton_owns)
  then have most: "length (attached (mountButton rs s)) \<le> 1"
    by (rule owns_container_length)
  have one: "exactly_one (mountButton rs s)" if "rs \<noteq> [] \<or> exactly_one s"
    using assms that by (rule mountButton_one)
  show ?thesis
    using most one exactly_one_attached by blast
qed

theorem mountButton_exactly_one_witness:
  "paymentsClient ready_state = Some (PaymentsClient ''TEST'') \<and>
   buttonContainer ready_state = Some [7] \<and> owns_container ready_state \<and>
   (None :: elem option) \<notin> set [Some 8, Some 9, Some 10] \<and>
   exactly_one (mountButton [Some 8, Some 9, Some 10] ready_state) \<and>
   length (attached (mountButton [Some 8, Some 9, Some 10] ready_state)) = 1 \<and>
   exactly_one (mountButton [] ready_state)"
  using mountButton_exactly_one
          [of ready_state "PaymentsClient ''TEST''" "[7]" "[Some 8, Some 9, Some 10]"]
    mountButton_exactly_one [of ready_state "PaymentsClient ''TEST''" "[7]" "[]"]
  by (simp add: ready_state_eq owns_container_def attached_def exactly_one_def)

subsection \<open>The payment-data request\<close>

text \<open>
  C2. The request that \<open>getPaymentDataRequest\<close> builds from the props has
  \<open>transactionInfo = { totalPriceStatus: "FINAL", totalPrice: amount, currencyCode: currency }\<close>,
  and this is the request that a button click hands to \<open>loadPaymentData\<close> when the client
  exists.
\<close>

theorem getPaymentDataRequest_transactionInfo:
  assumes "paymentsClient s = Some c"
  shows "transactionInfo (getPaymentDataRequest p (amount p) (currency p)) =
           \<lparr>totalPriceStatus = ''FINAL'', totalPrice = amount p, currencyCode = currency p\<rparr>
       \<and> (\<exists>req. effects (step p ButtonClick s) = effects s @ [LoadPaymentData req] \<and>
            transactionInfo req =
              \<lparr>totalPriceStatus = ''FINAL'', totalPrice = amount p,
               currencyCode = currency p\<rparr>)"
  using assms
  by (simp add: getPaymentDataRequest_def onGooglePayButtonClicked_def await_def perform_def)

theorem getPaymentDataRequest_transactionInfo_witness:
  "paymentsClient ready_state = Some (PaymentsClient ''TEST'') \<and>
   transactionInfo (getPaymentDataRequest ten_usd (amount ten_usd) (currency ten_usd)) =
     \<lparr>totalPriceStatus = ''FINAL'', totalPrice = ''10.00'', currencyCode = ''USD''\<rparr> \<and>
   (\<exists>req. effects (step ten_usd ButtonClick ready_state) =
            effects ready_state @ [LoadPaymentData req] \<and>
          transactionInfo req =
            \<lparr>totalPriceStatus = ''FINAL'', totalPrice = ''10.00'', currencyCode = ''USD''\<rparr>)"
  using getPaymentDataRequest_transactionInfo
          [of ready_state "PaymentsClient ''TEST''" ten_usd]
  by (simp add: ready_state_eq ten_usd_def default_props_def)

subsection \<open>A click without a client\<close>

text \<open>
  C9. When the click handler runs while \<open>paymentsClient\<close> is null, it only sets the status
  to \<open>Payments client not initialized.\<close>: no vendor call is made, no event is emitted and
  no promise is issued.
\<close>

theorem click_without_client:
  assumes "paymentsClient s = None"
  shows "onGooglePayButtonClicked p s = s\<lparr>status := ''Payments client not initialized.''\<rparr>
       \<and> status (step p ButtonClick s) = ''Payments client not initialized.''
       \<and> effects (step p ButtonClick s) = effects s
       \<and> pending (step p ButtonClick s) = pending s"
  using assms by (simp add: onGooglePayButtonClicked_def updateStatus_def)

theorem click_without_client_witness:
  "paymentsClient init_state = None \<and>
   status (step default_props ButtonClick init_state) = ''Payments client not initialized.'' \<and>
   effects (step default_props ButtonClick init_state) = [] \<and>
   pending (step default_props ButtonClick init_state) = []"
  using click_without_client [of init_state default_props]
  by (simp add: init_state_def)

subsection \<open>No relay without \<open>autoSendToServer\<close>\<close>

lemma fetches_step:
  "\<not> autoSendToServer p \<Longrightarrow>
   filter is_fetch (effects (step p ev s)) = filter is_fetch (effects s)"
  by (cases ev) (auto simp: handler_defs Let_def split: option.splits if_splits)

lemma fetches_run:
  "\<not> autoSendToServer p \<Longrightarrow>
   filter is_fetch (effects (run p evs s)) = filter is_fetch (effects s)"
  by (induction evs arbitrary: s) (simp_all add: fetches_step)

text \<open>
  C6. With \<open>autoSendToServer\<close> false, a payment that the vendor resolves emits \<open>success\<close>
  with the payment data and nothing else, leaves no relay in flight, and no sequence of
  events ever issues a POST.
\<close>

theorem no_relay_without_autoSendToServer:
  assumes "\<not> autoSendToServer p" and "PPayment \<in> set (pending s)"
  shows "effects (step p (PaymentResolved paymentData) s) =
           effects s @ [Emit (Success paymentData)]
       \<and> pending (step p (PaymentResolved paymentData) s) = remove1 PPayment (pending s)
       \<and> filter is_fetch (effects (run p evs s)) = filter is_fetch (effects s)"
  using assms by (simp add: fetches_run handler_defs)

theorem no_relay_without_autoSendToServer_witness:
  "\<not> autoSendToServer no_relay \<and> PPayment \<in> set (pending paying_state) \<and>
   effects (step no_relay (PaymentResolved ''tok'') paying_state) =
     effects paying_state @ [Emit (Success ''tok'')] \<and>
   pending (step no_relay (PaymentResolved ''tok'') paying_state) = [] \<and>
   filter is_fetch (effects (run no_relay [PaymentResolved ''tok'', ButtonClick,
       PaymentResolved ''tok2''] paying_state)) = []"
  using no_relay_without_autoSendToServer
          [of no_relay paying_state "''tok''" "[PaymentResolved ''tok'', ButtonClick,
       PaymentResolved ''tok2'']"]
  by (simp add: no_relay_def default_props_def paying_state_eq ready_state_eq)

subsection \<open>Script injection\<close>

lemma googleApi_step: "googleApi s \<Longrightarrow> googleApi (step p ev s)"
  by (cases ev) (auto simp: handler_defs Let_def split: option.splits if_splits)

lemma injections_step: "googleApi s \<Longrightarrow> injections (step p ev s) = injections s"
  by (cases ev) (auto simp: injections_def handler_defs Let_def split: option.splits if_splits)

lemma doc_head_step: "googleApi s \<Longrightarrow> set (doc_head (step p ev s)) \<subseteq> set (doc_head s)"
  by (cases ev)
     (auto simp: handler_defs Let_def split: option.splits if_splits
           dest: set_remove1_subset[THEN subsetD])

lemma googleApi_run: "googleApi s \<Longrightarrow> googleApi (run p evs s)"
  by (induction evs arbitrary: s) (simp_all add: googleApi_step)

lemma injections_run: "googleApi s \<Longrightarrow> injections (run p evs s) = injections s"
  by (induction evs arbitrary: s) (simp_all add: googleApi_step injections_step)

lemma doc_head_run: "googleApi s \<Longrightarrow> set (doc_head (run p evs s)) \<subseteq> set (doc_head s)"
proof (induction evs arbitrary: s)
  case Nil
  show ?case by simp
next
  case (Cons ev evs)
  have "set (doc_head (run p evs (step p ev s))) \<subseteq> set (doc_head (step p ev s))"
    using Cons.prems by (intro Cons.IH googleApi_step)
  also have "\<dots> \<subseteq> set (doc_head s)"
    using Cons.prems by (rule doc_head_step)
  finally show ?case by simp
qed

text \<open>
  C8. Once the vendor API object exists, no sequence of events (with any number of
  \<open>initGooglePay\<close> calls among them) appends a script element: the number of injections
  stays what it was and the head gains no script. In particular, on a page that starts
  without the API, after the first call has injected the script and the script has
  defined the API, the count stays at one.
\<close>

theorem script_injected_at_most_once:
  "(googleApi s \<longrightarrow>
      injections (run p evs s) = injections s \<and>
      set (doc_head (run p evs s)) \<subseteq> set (doc_head s)) \<and>
   injections (run p (Mounted # ApiDefined # evs) init_state) = 1"
proof -
  let ?s1 = "step p ApiDefined (step p Mounted init_state)"
  have "googleApi ?s1" by simp
  then have "injections (run p evs ?s1) = injections ?s1" by (rule injections_run)
  moreover have "injections ?s1 = 1"
    by (simp add: injections_def init_state_def handler_defs)
  ultimately show ?thesis
    by (simp add: injections_run doc_head_run)
qed

theorem script_injected_at_most_once_witness:
  "googleApi ready_state \<and>
   injections (run default_props [Mounted, Microtask, Mounted, Mounted] ready_state) = 1 \<and>
   injections (run default_props [Mounted, ApiDefined, ScriptOnload, Mounted, Mounted]
     init_state) = 1"
  using script_injected_at_most_once
          [of ready_state default_props "[Mounted, Microtask, Mounted, Mounted]"]
    script_injected_at_most_once [of init_state default_props "[ScriptOnload, Mounted, Mounted]"]
  by (simp add: ready_state_eq injections_def)

subsection \<open>A negative readiness check\<close>

lemma attached_step:
  "\<not> is_ready_true ev \<Longrightarrow> attached s = [] \<Longrightarrow> attached (step p ev s) = []"
  by (cases ev)
     (auto simp: attached_def handler_defs Let_def split: option.splits if_splits)

lemma attached_run:
  "list_all (\<lambda>ev. \<not> is_ready_true ev) evs \<Longrightarrow> attached s = [] \<Longrightarrow>
   attached (run p evs s) = []"
  by (induction evs arbitrary: s) (simp_all add: attached_step)

text \<open>
  C7. When the readiness check resolves with a negative result, the continuation of
  \<open>initGooglePay\<close> leaves the container and the button handle untouched, sets the
  status to the unavailable message, emits \<open>ready(false)\<close> and clears \<open>loading\<close>. Over a
  whole run from the freshly mounted component: as long as no readiness check resolves
  positive, no button is ever attached.
\<close>

theorem no_button_when_not_ready:
  "(PReady \<in> set (pending s) \<longrightarrow>
      buttonContainer (step p (ReadyResolved False created) s) = buttonContainer s \<and>
      buttonElement (step p (ReadyResolved False created) s) = buttonElement s \<and>
      status (step p (ReadyResolved False created) s) =
        ''Google Pay is not available in this environment/profile.'' \<and>
      effects (step p (ReadyResolved False created) s) = effects s @ [Emit (Ready False)] \<and>
      \<not> loading (step p (ReadyResolved False created) s)) \<and>
   (list_all (\<lambda>ev. \<not> is_ready_true ev) evs \<longrightarrow> attached (run p evs init_state) = [])"
proof -
  have "attached init_state = []" by (simp add: attached_def init_state_def)
  then have "attached (run p evs init_state) = []"
    if "list_all (\<lambda>ev. \<not> is_ready_true ev) evs"
    using that by (simp add: attached_run)
  then show ?thesis
    by (simp add: handler_defs)
qed

theorem no_button_when_not_ready_witness:
  "PReady \<in> set (pending (run default_props [Mounted, ApiDefined, ScriptOnload] init_state)) \<and>
   list_all (\<lambda>ev. \<not> is_ready_true ev) [Mounted, ApiDefined, ScriptOnload, ReadyResolved False (Some 7)] \<and>
   buttonContainer (run default_props [Mounted, ApiDefined, ScriptOnload, ReadyResolved False (Some 7)] init_state) = Some [] \<and>
   buttonElement (run default_props [Mounted, ApiDefined, ScriptOnload, ReadyResolved False (Some 7)] init_state) = None \<and>
   status (run default_props [Mounted, ApiDefined, ScriptOnload, ReadyResolved False (Some 7)] init_state) =
     ''Google Pay is not available in this environment/profile.'' \<and>
   effects (run default_props [Mounted, ApiDefined, ScriptOnload, ReadyResolved False (Some 7)] init_state) =
     [AppendScript 0, IsReadyToPay, Emit (Ready False)]"
  using no_button_when_not_ready
     [of "run default_props [Mounted, ApiDefined, ScriptOnload] init_state" default_props "Some 7"
         "[Mounted, ApiDefined, ScriptOnload, ReadyResolved False (Some 7)]"]
  by (simp add: init_state_def default_props_def handler_defs attached_def)

subsection \<open>Clicks while a payment is in progress\<close>

text \<open>
  C4 as stated fails: with one payment flow in progress, a second click issues a second
  \<open>loadPaymentData\<close> call, and two flows are outstanding.
\<close>

theorem double_click_counterexample:
  "pending paying_state = [PPayment] \<and>
   outstanding (step default_props ButtonClick paying_state) = 2 \<and>
   length (filter is_load (effects (step default_props ButtonClick paying_state))) = 2"
  by (simp add: paying_state_eq ready_state_eq outstanding_def handler_defs)

lemma click_client: "paymentsClient (step p ButtonClick s) = paymentsClient s"
  by (simp add: handler_defs)

lemma click_outstanding:
  "paymentsClient s = Some c \<Longrightarrow> outstanding (step p ButtonClick s) = Suc (outstanding s)"
  by (simp add: outstanding_def handler_defs)

lemma clicks_outstanding:
  "paymentsClient s = Some c \<Longrightarrow>
   outstanding (run p (replicate n ButtonClick) s) = outstanding s + n"
proof (induction n arbitrary: s)
  case 0
  show ?case by simp
next
  case (Suc n)
  have "paymentsClient (step p ButtonClick s) = Some c"
    using Suc.prems by (simp only: click_client)
  then have "outstanding (run p (replicate n ButtonClick) (step p ButtonClick s)) =
             outstanding (step p ButtonClick s) + n"
    by (rule Suc.IH)
  then show ?case
    using click_outstanding [OF Suc.prems, of p] by simp
qed

text \<open>
  C4, amended. The click handler has no guard but the null-client check: every click
  with a client issues one more \<open>loadPaymentData\<close> call with the request built from the
  props, whatever is in flight, so \<open>n\<close> clicks add \<open>n\<close> outstanding flows.
\<close>

theorem every_click_starts_a_flow:
  assumes "paymentsClient s = Some c"
  shows "effects (step p ButtonClick s) =
           effects s @ [LoadPaymentData (getPaymentDataRequest p (amount p) (currency p))]
       \<and> pending (step p ButtonClick s) = pending s @ [PPayment]
       \<and> outstanding (run p (replicate n ButtonClick) s) = outstanding s + n"
  using assms by (simp add: clicks_outstanding) (simp add: handler_defs)

theorem every_click_starts_a_flow_witness:
  "paymentsClient paying_state = Some (PaymentsClient ''TEST'') \<and>
   outstanding paying_state = 1 \<and>
   pending (step default_props ButtonClick paying_state) = [PPayment, PPayment] \<and>
   outstanding (run default_props (replicate 3 ButtonClick) paying_state) = 4"
  using every_click_starts_a_flow [of paying_state "PaymentsClient ''TEST''" default_props 3]
  by (simp add: paying_state_eq ready_state_eq outstanding_def)

subsection \<open>Teardown with promises in flight\<close>

lemma onBeforeUnmount_keeps:
  "effects (onBeforeUnmount s) = effects s \<and> status (onBeforeUnmount s) = status s \<and>
   pending (onBeforeUnmount s) = pending s \<and> paymentsClient (onBeforeUnmount s) = None"
  by (auto simp: handler_defs split: option.splits)

lemma torn_instance_eq:
  "torn_instance =
     \<lparr>component = paying_state\<lparr>paymentsClient := None, buttonElement := None, scriptEl := None,
               buttonContainer := None, doc_head := []\<rparr>,
      isUnmounted = True, delivered = [Ready True]\<rparr>"
  by (simp add: torn_instance_def vue_step_def mounted_instance_def new_emits_def
        paying_state_eq ready_state_eq handler_defs)

text \<open>
  C3 as stated fails in its half on Status: the component is unmounted while the payment
  sheet is open and the vendor then resolves the payment. The host receives no further
  event, but the handler runs all the same: the status changes after teardown and the
  relay is posted.
\<close>

theorem status_after_teardown_counterexample:
  "isUnmounted torn_instance \<and>
   pending (component torn_instance) = [PPayment] \<and>
   status (component torn_instance) = ''Google Pay is available. Click the button to pay.'' \<and>
   status (component (vue_step default_props (PaymentResolved ''tok'') torn_instance)) =
     ''Payment authorized. Processing...'' \<and>
   filter is_fetch (effects (component (vue_step default_props (PaymentResolved ''tok'')
     torn_instance))) = [Fetch ''/process-payment'' ''tok''] \<and>
   delivered (vue_step default_props (PaymentResolved ''tok'') torn_instance) = [Ready True]"
  by (simp add: torn_instance_eq vue_step_def paying_state_eq ready_state_eq
        default_props_def handler_defs)

lemma vue_unmount:
  "isUnmounted (vue_step p BeforeUnmount i) \<and>
   delivered (vue_step p BeforeUnmount i) = delivered i \<and>
   status (component (vue_step p BeforeUnmount i)) = status (component i) \<and>
   pending (component (vue_step p BeforeUnmount i)) = pending (component i) \<and>
   effects (component (vue_step p BeforeUnmount i)) = effects (component i) \<and>
   buttonContainer (component (vue_step p BeforeUnmount i)) = None"
  by (simp add: vue_step_def Let_def new_emits_def onBeforeUnmount_keeps)

lemma vue_unmounted_step:
  "isUnmounted i \<Longrightarrow>
   isUnmounted (vue_step p ev i) \<and> delivered (vue_step p ev i) = delivered i"
  by (simp add: vue_step_def Let_def)

lemma vue_unmounted_run: "isUnmounted i \<Longrightarrow> delivered (vue_run p evs i) = delivered i"
proof (induction evs arbitrary: i)
  case Nil
  show ?case by simp
next
  case (Cons ev evs)
  note u = vue_unmounted_step [OF Cons.prems, of p ev]
  have "delivered (vue_run p evs (vue_step p ev i)) = delivered (vue_step p ev i)"
    using u by (intro Cons.IH) simp
  then show ?case using u by simp
qed

lemma vue_unmounted_comp:
  "\<not> is_unmount ev \<Longrightarrow> component (vue_step p ev i) = step p ev (component i)"
  by (simp add: vue_step_def Let_def)

text \<open>
  C3, amended. After teardown the host page receives no \<open>ready\<close>, \<open>success\<close> or \<open>error\<close>
  event, whatever was in flight and however it settles later. The results of the
  promises in flight are not discarded, though, and Status is still mutated: teardown
  itself leaves the status and the pending promises as they are; a payment that
  resolves afterwards sets the status to \<open>Payment authorized. Processing...\<close> and, under
  \<open>autoSendToServer\<close>, posts the relay; one that rejects sets the failure status; and a
  relay in flight sets the status when it rejects and when it is answered.
\<close>

theorem teardown_mutes_events_only:
  "delivered (vue_run p (BeforeUnmount # evs) i) = delivered i \<and>
   status (component (vue_step p BeforeUnmount i)) = status (component i) \<and>
   pending (component (vue_step p BeforeUnmount i)) = pending (component i) \<and>
   (PPayment \<in> set (pending (component i1)) \<longrightarrow>
      status (component (vue_run p [BeforeUnmount, PaymentResolved paymentData] i1)) =
        ''Payment authorized. Processing...'' \<and>
      filter is_fetch (effects (component (vue_run p [BeforeUnmount, PaymentResolved paymentData] i1))) =
        filter is_fetch (effects (component i1)) @
          (if autoSendToServer p then [Fetch (processEndpoint p) paymentData] else []) \<and>
      status (component (vue_run p [BeforeUnmount, PaymentRejected err] i1)) =
        ''Payment cancelled or failed; check console.'') \<and>
   (PFetch \<in> set (pending (component i2)) \<longrightarrow>
      status (component (vue_run p [BeforeUnmount, FetchRejected err] i2)) =
        ''Error sending token to server; see console.'' \<and>
      status (component (vue_run p [BeforeUnmount, FetchResolved res, JsonSettled body] i2)) =
        ''Server processed payment.'')"
proof -
  have muted: "delivered (vue_run p (BeforeUnmount # evs) i) = delivered i"
    using vue_unmounted_run [of "vue_step p BeforeUnmount i" p evs] vue_unmount [of p i]
    by simp
  have pay: "status (component (vue_run p [BeforeUnmount, PaymentResolved paymentData] i1)) =
        ''Payment authorized. Processing...'' \<and>
      filter is_fetch (effects (component (vue_run p [BeforeUnmount, PaymentResolved paymentData] i1))) =
        filter is_fetch (effects (component i1)) @
          (if autoSendToServer p then [Fetch (processEndpoint p) paymentData] else []) \<and>
      status (component (vue_run p [BeforeUnmount, PaymentRejected err] i1)) =
        ''Payment cancelled or failed; check console.''"
    if "PPayment \<in> set (pending (component i1))"
    using that vue_unmount [of p i1]
    by (simp add: vue_unmounted_comp settle_def handlePaymentSuccess_def
          loadPaymentData_failed_def emit_def perform_def await_def updateStatus_def)
  have relay: "status (component (vue_run p [BeforeUnmount, FetchRejected err] i2)) =
        ''Error sending token to server; see console.'' \<and>
      status (component (vue_run p [BeforeUnmount, FetchResolved res, JsonSettled body] i2)) =
        ''Server processed payment.''"
    if "PFetch \<in> set (pending (component i2))"
    using that vue_unmount [of p i2]
    by (simp add: vue_unmounted_comp settle_def handlePaymentSuccess_fetchFailed_def
          handlePaymentSuccess_fetched_def handlePaymentSuccess_parsed_def emit_def
          await_def updateStatus_def)
  show ?thesis
    using muted pay relay vue_unmount [of p i] by blast
qed

theorem teardown_mutes_events_only_witness:
  "PPayment \<in> set (pending (component (mounted_instance paying_state))) \<and>
   PFetch \<in> set (pending (component (mounted_instance relaying_state))) \<and>
   delivered (mounted_instance paying_state) = [Ready True] \<and>
   delivered (vue_run default_props [PaymentResolved ''tok'']
     (mounted_instance paying_state)) = [Ready True, Success ''tok''] \<and>
   delivered (vue_run default_props [BeforeUnmount, PaymentResolved ''tok'', FetchRejected ''offline'']
     (mounted_instance paying_state)) = [Ready True] \<and>
   status (component (vue_run default_props [BeforeUnmount, PaymentResolved ''tok'']
     (mounted_instance paying_state))) = ''Payment authorized. Processing...'' \<and>
   filter is_fetch (effects (component (vue_run default_props [BeforeUnmount, PaymentResolved ''tok'']
     (mounted_instance paying_state)))) = [Fetch ''/process-payment'' ''tok''] \<and>
   status (component (vue_run default_props [BeforeUnmount, FetchRejected ''offline'']
     (mounted_instance relaying_state))) = ''Error sending token to server; see console.''"
proof -
  have live: "delivered (vue_run default_props [PaymentResolved ''tok'']
     (mounted_instance paying_state)) = [Ready True, Success ''tok'']"
    by (simp add: vue_step_def mounted_instance_def new_emits_def paying_state_eq
          ready_state_eq default_props_def handler_defs)
  show ?thesis
    using live teardown_mutes_events_only
       [of default_props "[PaymentResolved ''tok'', FetchRejected ''offline'']"
           "mounted_instance paying_state" "mounted_instance paying_state" "''tok''"
           "''offline''" "mounted_instance relaying_state" "\<lparr>http_status = 200\<rparr>" None]
    by (simp add: mounted_instance_def relaying_state_eq paying_state_eq ready_state_eq
          default_props_def)
qed

subsection \<open>Relay failures\<close>

text \<open>
  C5 as stated fails: the relay answers 200 with a body that does not parse; the inner
  \<open>catch\<close> turns the parse failure into null, the status becomes
  \<open>Server processed payment.\<close> and no \<open>error\<close> event is emitted.
\<close>

theorem relay_parse_failure_counterexample:
  "PFetch \<in> set (pending relaying_state) \<and>
   Emit (Success ''tok'') \<in> set (effects relaying_state) \<and>
   status (run default_props [FetchResolved \<lparr>http_status = 200\<rparr>, JsonSettled None]
     relaying_state) = ''Server processed payment.'' \<and>
   filter is_error_event (effects (run default_props
     [FetchResolved \<lparr>http_status = 200\<rparr>, JsonSettled None] relaying_state)) = []"
  by (simp add: relaying_state_eq paying_state_eq ready_state_eq default_props_def handler_defs)

lemma effects_step_prefix: "prefix (effects s) (effects (step p ev s))"
  by (cases ev) (auto simp: handler_defs Let_def split: option.splits if_splits)

lemma effects_run_prefix: "prefix (effects s) (effects (run p evs s))"
proof (induction evs arbitrary: s)
  case Nil
  show ?case by simp
next
  case (Cons ev evs)
  have "prefix (effects s) (effects (step p ev s))" by (rule effects_step_prefix)
  also have "prefix (effects (step p ev s)) (effects (run p evs (step p ev s)))"
    by (rule Cons.IH)
  finally show ?case by simp
qed

text \<open>
  C5, amended. A relay that rejects (network error) sets the status to the relay failure
  message and emits \<open>error\<close> with the cause. A relay that answers 2xx with a body that
  fails to parse is not reported as an error: the status becomes
  \<open>Server processed payment.\<close> and nothing is emitted. In every case the \<open>success\<close>
  event already emitted stays emitted, whatever happens afterwards.
\<close>

theorem relay_failure_reporting:
  "(PFetch \<in> set (pending s) \<longrightarrow>
      status (step p (FetchRejected err) s) = ''Error sending token to server; see console.'' \<and>
      effects (step p (FetchRejected err) s) = effects s @ [Emit (Error err)]) \<and>
   (PFetch \<in> set (pending s) \<and> is_2xx res \<longrightarrow>
      status (run p [FetchResolved res, JsonSettled None] s) = ''Server processed payment.'' \<and>
      effects (run p [FetchResolved res, JsonSettled None] s) = effects s) \<and>
   (Emit (Success paymentData) \<in> set (effects s1) \<longrightarrow>
      Emit (Success paymentData) \<in> set (effects (run p evs s1)))"
proof -
  have kept: "Emit (Success paymentData) \<in> set (effects (run p evs s1))"
    if "Emit (Success paymentData) \<in> set (effects s1)"
    using that set_mono_prefix [OF effects_run_prefix [of s1 p evs]] by blast
  show ?thesis
    using kept by (simp add: handler_defs)
qed

theorem relay_failure_reporting_witness:
  "PFetch \<in> set (pending relaying_state) \<and> is_2xx \<lparr>http_status = 204\<rparr> \<and>
   Emit (Success ''tok'') \<in> set (effects relaying_state) \<and>
   effects (step default_props (FetchRejected ''offline'') relaying_state) =
     effects relaying_state @ [Emit (Error ''offline'')] \<and>
   status (step default_props (FetchRejected ''offline'') relaying_state) =
     ''Error sending token to server; see console.'' \<and>
   status (run default_props [FetchResolved \<lparr>http_status = 204\<rparr>, JsonSettled None]
     relaying_state) = ''Server processed payment.'' \<and>
   Emit (Success ''tok'') \<in> set (effects (run default_props [FetchRejected ''offline'']
     relaying_state))"
  using relay_failure_reporting
     [of relaying_state default_props "''offline''" "\<lparr>http_status = 204\<rparr>" "''tok''"
         relaying_state "[FetchRejected ''offline'']"]
  by (simp add: relaying_state_eq paying_state_eq ready_state_eq is_2xx_def)

section \<open>The cart total of the payment-request widget\<close>

lemma qty_or_1_quantity: "qty_or_1 ops item = quantity ops item"
  by (simp add: qty_or_1_def quantity_def missing_or_falsy_def split: option.splits)

lemma totalAmount_spec_total: "totalAmount ops cart = spec_total ops cart"
  by (simp add: totalAmount_def spec_total_def js_sum_def line_cents_def cents_def
        qty_or_1_quantity foldl_map)

text \<open>
  C10. The amount of the payment request is the total that \<open>reduce\<close> computes, and it
  equals the sum, from 0 and in cart order, of \<open>round(price * 100)\<close> times the quantity
  of each item, where the quantity of an item without \<open>qty\<close> or with a falsy \<open>qty\<close> is 1
  and otherwise is its \<open>qty\<close>; for the empty cart it is 0. Products, sums and rounding
  are JavaScript's.
\<close>

theorem totalAmount_is_sum:
  "totalAmount ops cart = spec_total ops cart \<and>
   pr_amount (pr_total (paymentRequestOptions ops cart)) = spec_total ops cart \<and>
   totalAmount ops [] = js_number ops 0 \<and>
   (qty item = None \<longrightarrow>
      line_cents ops item = js_mul ops (cents ops item) (js_number ops 1)) \<and>
   (qty item = Some q \<and> \<not> js_truthy ops q \<longrightarrow>
      line_cents ops item = js_mul ops (cents ops item) (js_number ops 1)) \<and>
   (qty item = Some q \<and> js_truthy ops q \<longrightarrow>
      line_cents ops item = js_mul ops (cents ops item) q)"
proof -
  have "totalAmount ops [] = js_number ops 0"
    by (simp add: totalAmount_def)
  moreover have "pr_amount (pr_total (paymentRequestOptions ops cart)) = spec_total ops cart"
    by (simp add: paymentRequestOptions_def totalAmount_spec_total)
  ultimately show ?thesis
    by (simp add: totalAmount_spec_total line_cents_def quantity_def missing_or_falsy_def)
qed

theorem totalAmount_is_sum_witness:
  "qty kanne = None \<and> qty sieb = Some 0 \<and> \<not> js_truthy int_ops 0 \<and>
   qty tee = Some 2 \<and> js_truthy int_ops 2 \<and>
   line_cents int_ops kanne = 500 \<and> line_cents int_ops sieb = 700 \<and>
   line_cents int_ops tee = 600 \<and>
   totalAmount int_ops [tee, kanne, sieb] = 1800 \<and>
   pr_amount (pr_total (paymentRequestOptions int_ops [tee, kanne, sieb])) = 1800 \<and>
   totalAmount int_ops [] = 0"
  using totalAmount_is_sum [of int_ops "[tee, kanne, sieb]" kanne 0]
    totalAmount_is_sum [of int_ops "[tee, kanne, sieb]" sieb 0]
    totalAmount_is_sum [of int_ops "[tee, kanne, sieb]" tee 2]
  by (simp add: spec_total_def js_sum_def line_cents_def cents_def quantity_def
        missing_or_falsy_def int_ops_def tee_def kanne_def sieb_def)

end
